theory Spec2Isabelle
  imports Main "HOL-Library.AList" "HOL-Library.Sublist"
begin

section \<open>Python values\<close>

text \<open>
  The parser works on what \<^verbatim>\<open>json.load\<close> returns: \<^verbatim>\<open>None\<close>, booleans, integers,
  floats, strings, lists and dictionaries. A dictionary is an association list in
  insertion order (the decoder leaves every key once). A float is carried by the text
  Python prints for it, which is all the parser ever observes of a float besides its
  truth value.
\<close>

datatype json =
    JNull
  | JBool bool
  | JInt int
  | JFloat string
  | JStr string
  | JList "json list"
  | JObj "(string \<times> json) list"

type_synonym dict = "(string \<times> json) list"

text \<open>The exceptions that the modelled code can raise or let through.\<close>

datatype exn =
    FileNotFoundError string
  | OSError
  | ValueError string
  | AttributeError
  | TypeError
  | KeyError string
  | ConnectionError
  | Neo4jError

text \<open>\<^verbatim>\<open>bool(x)\<close>, as \<^verbatim>\<open>not x\<close> and \<^verbatim>\<open>if x\<close> use it.\<close>

fun truthy :: "json \<Rightarrow> bool" where
  "truthy JNull = False"
| "truthy (JBool b) = b"
| "truthy (JInt i) = (i \<noteq> 0)"
| "truthy (JFloat r) = (r \<noteq> ''0.0'' \<and> r \<noteq> ''-0.0'')"
| "truthy (JStr s) = (s \<noteq> [])"
| "truthy (JList xs) = (xs \<noteq> [])"
| "truthy (JObj d) = (d \<noteq> [])"

text \<open>\<^verbatim>\<open>d.get(k, default)\<close> on a dictionary.\<close>

definition dict_get :: "dict \<Rightarrow> string \<Rightarrow> json \<Rightarrow> json" where
  "dict_get d k dflt = (case map_of d k of None \<Rightarrow> dflt | Some v \<Rightarrow> v)"

text \<open>
  \<^verbatim>\<open>x.get(k, default)\<close> on any decoded value: only a dictionary has the method, every
  other value raises \<^verbatim>\<open>AttributeError\<close>.
\<close>

fun py_get :: "json \<Rightarrow> string \<Rightarrow> json \<Rightarrow> exn + json" where
  "py_get (JObj d) k dflt = Inr (dict_get d k dflt)"
| "py_get _ k dflt = Inl AttributeError"

text \<open>
  \<^verbatim>\<open>for x in v\<close>: a list gives its elements, a dictionary its keys, a string its
  characters; the other values are not iterable.
\<close>

fun py_iter :: "json \<Rightarrow> exn + json list" where
  "py_iter (JList xs) = Inr xs"
| "py_iter (JObj d) = Inr (map (\<lambda>kv. JStr (fst kv)) d)"
| "py_iter (JStr s) = Inr (map (\<lambda>c. JStr [c]) s)"
| "py_iter _ = Inl TypeError"

text \<open>Decimal digits of a natural number and of an integer, as \<^verbatim>\<open>str\<close> prints them.\<close>

fun show_nat :: "nat \<Rightarrow> string" where
  "show_nat n =
     (if n < 10 then [''0123456789'' ! n]
      else show_nat (n div 10) @ [''0123456789'' ! (n mod 10)])"

declare show_nat.simps [simp del]

definition show_int :: "int \<Rightarrow> string" where
  "show_int i = (if i < 0 then CHR ''-'' # show_nat (nat (- i)) else show_nat (nat i))"

text \<open>
  \<^verbatim>\<open>str(v)\<close>. The text of a list or of a dictionary is their \<^verbatim>\<open>repr\<close>, which quotes and
  escapes strings by rules of the Python library; it is the parameter \<open>R\<close>.
\<close>

fun py_str :: "(json \<Rightarrow> string) \<Rightarrow> json \<Rightarrow> string" where
  "py_str R JNull = ''None''"
| "py_str R (JBool b) = (if b then ''True'' else ''False'')"
| "py_str R (JInt i) = show_int i"
| "py_str R (JFloat r) = r"
| "py_str R (JStr s) = s"
| "py_str R (JList xs) = R (JList xs)"
| "py_str R (JObj d) = R (JObj d)"

section \<open>The graph parser\<close>

text \<open>
  \<^verbatim>\<open>TerraformGraphParser\<close>. \<open>raw_data\<close> starts as \<^verbatim>\<open>None\<close>; \<open>nodes\<close> and \<open>edges\<close> hold
  the lists of the last \<^verbatim>\<open>parse_nodes\<close> and \<^verbatim>\<open>parse_edges\<close>. Lines printed on success
  are not part of the model.
\<close>

record parser =
  file_path :: string
  raw_data :: json
  nodes :: "dict list"
  edges :: "dict list"

definition init_parser :: "string \<Rightarrow> parser" where
  "init_parser path = \<lparr>file_path = path, raw_data = JNull, nodes = [], edges = []\<rparr>"

text \<open>
  What \<^verbatim>\<open>open\<close> followed by \<^verbatim>\<open>json.load\<close> finds at a path: a file that cannot be read,
  text that is not JSON (with the decoder's message), or a decoded document. A path the
  file system does not map is a missing file.
\<close>

datatype content = Unreadable | Malformed string | Decoded json

type_synonym files = "string \<rightharpoonup> content"

definition load_graph :: "files \<Rightarrow> parser \<Rightarrow> (exn + unit) \<times> parser" where
  "load_graph fs p =
     (case fs (file_path p) of
        None \<Rightarrow> (Inl (FileNotFoundError (''Graph file not found: '' @ file_path p)), p)
      | Some Unreadable \<Rightarrow> (Inl OSError, p)
      | Some (Malformed msg) \<Rightarrow> (Inl (ValueError (''Invalid JSON in graph file: '' @ msg)), p)
      | Some (Decoded j) \<Rightarrow> (Inr (), p\<lparr>raw_data := j\<rparr>))"

definition not_loaded :: exn where
  "not_loaded = ValueError ''Graph data not loaded. Call load_graph() first.''"

text \<open>
  The copying loop of both parsers:
  \<^verbatim>\<open>for key, value in obj.items(): if key not in excluded: rec[key] = value\<close>.
  An assignment to a key the record already has replaces its value in place.
\<close>

definition copy_attrs :: "string list \<Rightarrow> dict \<Rightarrow> dict \<Rightarrow> dict" where
  "copy_attrs excluded obj rec =
     fold (\<lambda>kv r. if fst kv \<in> set excluded then r else AList.update (fst kv) (snd kv) r) obj rec"

definition node_excluded :: "string list" where
  "node_excluded = [''_gvid'', ''name'', ''label'', ''_draw_'', ''_ldraw_'']"

definition edge_excluded :: "string list" where
  "edge_excluded = [''tail'', ''head'', ''label'', ''_draw_'', ''_ldraw_'', ''_hdraw_'']"

text \<open>The body of the loop of \<^verbatim>\<open>parse_nodes\<close> for an entry that is kept.\<close>

definition node_record :: "(json \<Rightarrow> string) \<Rightarrow> dict \<Rightarrow> dict" where
  "node_record R obj =
     copy_attrs node_excluded obj
       [(''id'', JStr (py_str R (dict_get obj ''_gvid'' JNull))),
        (''name'', dict_get obj ''name'' (JStr [])),
        (''label'', dict_get obj ''label'' (dict_get obj ''name'' (JStr [])))]"

text \<open>The body of the loop of \<^verbatim>\<open>parse_edges\<close>.\<close>

definition edge_record :: "(json \<Rightarrow> string) \<Rightarrow> dict \<Rightarrow> dict" where
  "edge_record R edge_data =
     copy_attrs edge_excluded edge_data
       [(''source'', JStr (py_str R (dict_get edge_data ''tail'' JNull))),
        (''target'', JStr (py_str R (dict_get edge_data ''head'' JNull))),
        (''label'', dict_get edge_data ''label'' (JStr ''DEPENDS_ON''))]"

text \<open>
  The loops, with the list built so far. An entry that is not a dictionary has no
  \<^verbatim>\<open>get\<close>: the loop stops there with \<^verbatim>\<open>AttributeError\<close> and the list keeps what was
  appended before.
\<close>

fun nodes_loop :: "(json \<Rightarrow> string) \<Rightarrow> json list \<Rightarrow> dict list \<Rightarrow> (exn + unit) \<times> dict list" where
  "nodes_loop R [] acc = (Inr (), acc)"
| "nodes_loop R (JObj obj # rest) acc =
     (if dict_get obj ''_gvid'' JNull = JNull then nodes_loop R rest acc
      else nodes_loop R rest (acc @ [node_record R obj]))"
| "nodes_loop R (_ # rest) acc = (Inl AttributeError, acc)"

fun edges_loop :: "(json \<Rightarrow> string) \<Rightarrow> json list \<Rightarrow> dict list \<Rightarrow> (exn + unit) \<times> dict list" where
  "edges_loop R [] acc = (Inr (), acc)"
| "edges_loop R (JObj edge_data # rest) acc = edges_loop R rest (acc @ [edge_record R edge_data])"
| "edges_loop R (_ # rest) acc = (Inl AttributeError, acc)"

definition parse_nodes :: "(json \<Rightarrow> string) \<Rightarrow> parser \<Rightarrow> (exn + dict list) \<times> parser" where
  "parse_nodes R p =
     (if \<not> truthy (raw_data p) then (Inl not_loaded, p)
      else
        (case py_get (raw_data p) ''objects'' (JList []) of
           Inl e \<Rightarrow> (Inl e, p\<lparr>nodes := []\<rparr>)
         | Inr objects \<Rightarrow>
             (case py_iter objects of
                Inl e \<Rightarrow> (Inl e, p\<lparr>nodes := []\<rparr>)
              | Inr entries \<Rightarrow>
                  (case nodes_loop R entries [] of
                     (Inl e, acc) \<Rightarrow> (Inl e, p\<lparr>nodes := acc\<rparr>)
                   | (Inr u, acc) \<Rightarrow> (Inr acc, p\<lparr>nodes := acc\<rparr>)))))"

definition parse_edges :: "(json \<Rightarrow> string) \<Rightarrow> parser \<Rightarrow> (exn + dict list) \<times> parser" where
  "parse_edges R p =
     (if \<not> truthy (raw_data p) then (Inl not_loaded, p)
      else
        (case py_get (raw_data p) ''edges'' (JList []) of
           Inl e \<Rightarrow> (Inl e, p\<lparr>edges := []\<rparr>)
         | Inr items \<Rightarrow>
             (case py_iter items of
                Inl e \<Rightarrow> (Inl e, p\<lparr>edges := []\<rparr>)
              | Inr entries \<Rightarrow>
                  (case edges_loop R entries [] of
                     (Inl e, acc) \<Rightarrow> (Inl e, p\<lparr>edges := acc\<rparr>)
                   | (Inr u, acc) \<Rightarrow> (Inr acc, p\<lparr>edges := acc\<rparr>)))))"

definition get_graph_metadata :: "parser \<Rightarrow> exn + dict" where
  "get_graph_metadata p =
     (if \<not> truthy (raw_data p) then Inl not_loaded
      else
        (case raw_data p of
           JObj d \<Rightarrow>
             Inr [(''name'', dict_get d ''name'' (JStr ''terraform_graph'')),
                  (''directed'', dict_get d ''directed'' (JBool True)),
                  (''strict'', dict_get d ''strict'' (JBool False)),
                  (''node_count'', JInt (int (length (nodes p)))),
                  (''edge_count'', JInt (int (length (edges p))))]
         | _ \<Rightarrow> Inl AttributeError))"

text \<open>\<^verbatim>\<open>parse\<close>: load, then nodes, edges and metadata; the first exception ends it.\<close>

definition parse :: "(json \<Rightarrow> string) \<Rightarrow> files \<Rightarrow> parser \<Rightarrow> (exn + dict) \<times> parser" where
  "parse R fs p =
     (case load_graph fs p of
        (Inl e, p1) \<Rightarrow> (Inl e, p1)
      | (Inr u, p1) \<Rightarrow>
          (case parse_nodes R p1 of
             (Inl e, p2) \<Rightarrow> (Inl e, p2)
           | (Inr ns, p2) \<Rightarrow>
               (case parse_edges R p2 of
                  (Inl e, p3) \<Rightarrow> (Inl e, p3)
                | (Inr es, p3) \<Rightarrow>
                    (case get_graph_metadata p3 of
                       Inl e \<Rightarrow> (Inl e, p3)
                     | Inr metadata \<Rightarrow>
                         (Inr [(''nodes'', JList (map JObj ns)),
                               (''edges'', JList (map JObj es)),
                               (''metadata'', JObj metadata)], p3)))))"

section \<open>The store, as the loader sees it\<close>

text \<open>
  The property-graph store is an external server. The loader sends it a connection
  greeting, five Cypher queries and a closing:
  \<^item> \<open>Delete_all\<close>: \<^verbatim>\<open>MATCH (n) DETACH DELETE n\<close>;
  \<^item> \<open>Create_constraint\<close>: \<^verbatim>\<open>CREATE CONSTRAINT terraform_resource_id IF NOT EXISTS
    FOR (n:TerraformResource) REQUIRE n.id IS UNIQUE\<close>;
  \<^item> \<open>Merge_nodes nodes\<close>: \<^verbatim>\<open>UNWIND $nodes AS node MERGE (n:TerraformResource {id: node.id})
    SET n += node RETURN count(n) AS count\<close>;
  \<^item> \<open>Merge_edges edges\<close>: \<^verbatim>\<open>UNWIND $edges AS edge
    MATCH (source:TerraformResource {id: edge.source})
    MATCH (target:TerraformResource {id: edge.target})
    MERGE (source)-[r:DEPENDS_ON]->(target) SET r.label = edge.label
    RETURN count(r) AS count\<close>;
  \<^item> \<open>Count_stats\<close>: \<^verbatim>\<open>MATCH (n:TerraformResource) OPTIONAL MATCH ()-[r:DEPENDS_ON]->()
    RETURN count(DISTINCT n) AS nodes, count(r) AS relationships\<close>.

  A server is any function \<open>serve\<close> from a request and a database to a reply (the one
  record of named integers that the query returns; \<open>None\<close> when the server raises) and
  the next database, together with the decision \<open>admits\<close> on a greeting and the journal
  of the requests received so far.
\<close>

datatype request =
    Hello string string string
  | Goodbye
  | Delete_all
  | Create_constraint
  | Merge_nodes json
  | Merge_edges json
  | Count_stats

type_synonym reply = "(string \<times> int) list"

record 'db server =
  admits :: "string \<Rightarrow> string \<Rightarrow> string \<Rightarrow> bool"
  serve :: "request \<Rightarrow> 'db \<Rightarrow> reply option \<times> 'db"
  db :: 'db
  journal :: "request list"

text \<open>\<^verbatim>\<open>session.run(query)\<close>: the request reaches the server, which answers or raises.\<close>

definition session_run :: "request \<Rightarrow> 'db server \<Rightarrow> (exn + reply) \<times> 'db server" where
  "session_run q srv =
     (case serve srv q (db srv) of
        (None, d) \<Rightarrow> (Inl Neo4jError, srv\<lparr>db := d, journal := journal srv @ [q]\<rparr>)
      | (Some rep, d) \<Rightarrow> (Inr rep, srv\<lparr>db := d, journal := journal srv @ [q]\<rparr>))"

text \<open>\<^verbatim>\<open>record[key]\<close> on the single record of a result.\<close>

definition field :: "reply \<Rightarrow> string \<Rightarrow> exn + int" where
  "field rep k = (case map_of rep k of None \<Rightarrow> Inl (KeyError k) | Some n \<Rightarrow> Inr n)"

section \<open>The loader\<close>

text \<open>
  \<^verbatim>\<open>Neo4jConnector\<close>. \<open>driver\<close> is \<^verbatim>\<open>None\<close> until \<^verbatim>\<open>connect\<close> creates the driver for the
  connector's address and credentials. The connector is changed by \<^verbatim>\<open>connect\<close> only;
  every other method reads it and talks to the server.
\<close>

record connector =
  uri :: string
  user :: string
  password :: string
  driver :: "(string \<times> string \<times> string) option"

definition init_connector :: "string \<Rightarrow> string \<Rightarrow> string \<Rightarrow> connector" where
  "init_connector u n pw = \<lparr>uri = u, user = n, password = pw, driver = None\<rparr>"

text \<open>
  \<^verbatim>\<open>connect\<close>: the driver is created and stored, then connectivity is verified; a
  refusal is raised as \<^verbatim>\<open>ConnectionError\<close>. (An address that the driver library
  rejects before it creates a driver is not told apart from a refusal.)
\<close>

definition connect :: "connector \<Rightarrow> 'db server \<Rightarrow> (exn + unit) \<times> connector \<times> 'db server" where
  "connect c srv =
     (let c' = c\<lparr>driver := Some (uri c, user c, password c)\<rparr>;
          srv' = srv\<lparr>journal := journal srv @ [Hello (uri c) (user c) (password c)]\<rparr>
      in if admits srv (uri c) (user c) (password c) then (Inr (), c', srv')
         else (Inl ConnectionError, c', srv'))"

definition close :: "connector \<Rightarrow> 'db server \<Rightarrow> 'db server" where
  "close c srv = (if driver c \<noteq> None then srv\<lparr>journal := journal srv @ [Goodbye]\<rparr> else srv)"

text \<open>
  \<^verbatim>\<open>self.driver.session()\<close> on a connector that never connected raises
  \<^verbatim>\<open>AttributeError\<close>, before anything is sent.
\<close>

definition clear_database :: "connector \<Rightarrow> 'db server \<Rightarrow> (exn + unit) \<times> 'db server" where
  "clear_database c srv =
     (if driver c = None then (Inl AttributeError, srv)
      else
        (case session_run Delete_all srv of
           (Inl e, s) \<Rightarrow> (Inl e, s)
         | (Inr rep, s) \<Rightarrow> (Inr (), s)))"

text \<open>An exception of the constraint query is caught and only reported.\<close>

definition create_constraints :: "connector \<Rightarrow> 'db server \<Rightarrow> (exn + unit) \<times> 'db server" where
  "create_constraints c srv =
     (if driver c = None then (Inl AttributeError, srv)
      else
        (case session_run Create_constraint srv of
           (Inl e, s) \<Rightarrow> (Inr (), s)
         | (Inr rep, s) \<Rightarrow> (Inr (), s)))"

definition ingest_nodes :: "connector \<Rightarrow> json \<Rightarrow> 'db server \<Rightarrow> (exn + int) \<times> 'db server" where
  "ingest_nodes c ns srv =
     (if \<not> truthy ns then (Inr 0, srv)
      else if driver c = None then (Inl AttributeError, srv)
      else
        (case session_run (Merge_nodes ns) srv of
           (Inl e, s) \<Rightarrow> (Inl e, s)
         | (Inr rep, s) \<Rightarrow> (field rep ''count'', s)))"

definition ingest_edges :: "connector \<Rightarrow> json \<Rightarrow> 'db server \<Rightarrow> (exn + int) \<times> 'db server" where
  "ingest_edges c es srv =
     (if \<not> truthy es then (Inr 0, srv)
      else if driver c = None then (Inl AttributeError, srv)
      else
        (case session_run (Merge_edges es) srv of
           (Inl e, s) \<Rightarrow> (Inl e, s)
         | (Inr rep, s) \<Rightarrow> (field rep ''count'', s)))"

text \<open>
  \<^verbatim>\<open>ingest_graph\<close>. After both upserts the method reads the name in the metadata for
  its closing report, which raises when the metadata is not a dictionary.
\<close>

definition ingest_graph :: "connector \<Rightarrow> dict \<Rightarrow> bool \<Rightarrow> 'db server \<Rightarrow> (exn + reply) \<times> 'db server" where
  "ingest_graph c graph_data clear_existing srv =
     (case (if clear_existing then clear_database c srv else (Inr (), srv)) of
        (Inl e, s1) \<Rightarrow> (Inl e, s1)
      | (Inr u, s1) \<Rightarrow>
          (case create_constraints c s1 of
             (Inl e, s2) \<Rightarrow> (Inl e, s2)
           | (Inr u, s2) \<Rightarrow>
               (case ingest_nodes c (dict_get graph_data ''nodes'' (JList [])) s2 of
                  (Inl e, s3) \<Rightarrow> (Inl e, s3)
                | (Inr nodes_count, s3) \<Rightarrow>
                    (case ingest_edges c (dict_get graph_data ''edges'' (JList [])) s3 of
                       (Inl e, s4) \<Rightarrow> (Inl e, s4)
                     | (Inr edges_count, s4) \<Rightarrow>
                         (case py_get (dict_get graph_data ''metadata'' (JObj [])) ''name'' (JStr ''N/A'') of
                            Inl e \<Rightarrow> (Inl e, s4)
                          | Inr name \<Rightarrow>
                              (Inr [(''nodes'', nodes_count), (''edges'', edges_count)], s4))))))"

definition get_stats :: "connector \<Rightarrow> 'db server \<Rightarrow> (exn + reply) \<times> 'db server" where
  "get_stats c srv =
     (if driver c = None then (Inl AttributeError, srv)
      else
        (case session_run Count_stats srv of
           (Inl e, s) \<Rightarrow> (Inl e, s)
         | (Inr rep, s) \<Rightarrow>
             (case field rep ''nodes'' of
                Inl e \<Rightarrow> (Inl e, s)
              | Inr n \<Rightarrow>
                  (case field rep ''relationships'' of
                     Inl e \<Rightarrow> (Inl e, s)
                   | Inr r \<Rightarrow> (Inr [(''nodes'', n), (''relationships'', r)], s)))))"

section \<open>The command-line program\<close>

text \<open>
  \<^verbatim>\<open>main\<close>, from the parsed command line on. The world it runs in has the environment
  after \<^verbatim>\<open>load_dotenv\<close>, the files, the external pipeline that
  \<^verbatim>\<open>generate_terraform_graph\<close> drives (given a path and the files, it succeeds or
  not and leaves the files changed) and the store. The result is the exit status (0
  when \<^verbatim>\<open>main\<close> returns), what was reported to the operator and the world left behind.
\<close>

record args =
  graph_file :: string
  skip_generate :: bool
  no_clear :: bool

record 'db world =
  environ :: "string \<rightharpoonup> string"
  disk :: files
  generate_terraform_graph :: "string \<Rightarrow> files \<Rightarrow> bool \<times> files"
  store :: "'db server"

datatype report =
    Password_not_set
  | Generation_failed
  | Graph_file_not_found string
  | Failed exn
  | Statistics int int

text \<open>\<^verbatim>\<open>os.getenv(key, default)\<close>.\<close>

definition getenv :: "'db world \<Rightarrow> string \<Rightarrow> string \<Rightarrow> string" where
  "getenv w k dflt = (case environ w k of None \<Rightarrow> dflt | Some v \<Rightarrow> v)"

text \<open>
  The \<^verbatim>\<open>with\<close> block of \<^verbatim>\<open>main\<close>: ingest, then read the statistics. The connection is
  closed on every way out of the block.
\<close>

definition ingest_and_report ::
    "connector \<Rightarrow> dict \<Rightarrow> bool \<Rightarrow> 'db server \<Rightarrow> nat \<times> report list \<times> 'db server" where
  "ingest_and_report c graph_data clear_existing srv =
     (case ingest_graph c graph_data clear_existing srv of
        (Inl e, s1) \<Rightarrow> (1, [Failed e], close c s1)
      | (Inr counts, s1) \<Rightarrow>
          (case get_stats c s1 of
             (Inl e, s2) \<Rightarrow> (1, [Failed e], close c s2)
           | (Inr stats, s2) \<Rightarrow>
               (case field stats ''nodes'' of
                  Inl e \<Rightarrow> (1, [Failed e], close c s2)
                | Inr n \<Rightarrow>
                    (case field stats ''relationships'' of
                       Inl e \<Rightarrow> (1, [Failed e], close c s2)
                     | Inr r \<Rightarrow> (0, [Statistics n r], close c s2)))))"

definition main :: "(json \<Rightarrow> string) \<Rightarrow> args \<Rightarrow> 'db world \<Rightarrow> nat \<times> report list \<times> 'db world" where
  "main R a w =
     (let neo4j_uri = getenv w ''NEO4J_URI'' ''bolt://localhost:7687'';
          neo4j_user = getenv w ''NEO4J_USER'' ''neo4j''
      in
        (case environ w ''NEO4J_PASSWORD'' of
           None \<Rightarrow> (1, [Password_not_set], w)
         | Some neo4j_password \<Rightarrow>
             if neo4j_password = [] then (1, [Password_not_set], w)
             else
               (case (if skip_generate a then (True, disk w)
                      else generate_terraform_graph w (graph_file a) (disk w)) of
                  (False, fs) \<Rightarrow> (1, [Generation_failed], w\<lparr>disk := fs\<rparr>)
                | (True, fs) \<Rightarrow>
                    if fs (graph_file a) = None
                    then (1, [Graph_file_not_found (graph_file a)], w\<lparr>disk := fs\<rparr>)
                    else
                      (case parse R fs (init_parser (graph_file a)) of
                         (Inl e, p) \<Rightarrow> (1, [Failed e], w\<lparr>disk := fs\<rparr>)
                       | (Inr graph_data, p) \<Rightarrow>
                           (case connect (init_connector neo4j_uri neo4j_user neo4j_password)
                                   (store w) of
                              (Inl e, c, s) \<Rightarrow> (1, [Failed e], w\<lparr>disk := fs, store := s\<rparr>)
                            | (Inr u, c, s) \<Rightarrow>
                                (case ingest_and_report c graph_data (\<not> no_clear a) s of
                                   (status, reports, s') \<Rightarrow>
                                     (status, reports, w\<lparr>disk := fs, store := s'\<rparr>)))))))"

section \<open>A store that evaluates the five queries\<close>

text \<open>
  An in-memory property graph and the meaning of each query on it, clause by clause.
  Vertices carry an identity, labels and properties; relationships a type, their two
  ends and properties. Property values are kept as they are given and compared by
  their structure; \<^verbatim>\<open>null\<close> in a \<^verbatim>\<open>SET\<close> removes the property. A query that fails leaves
  the graph as it was. Values that Neo4j would refuse to store, such as a nested map,
  are not refused here; the general statements about the loader hold for every server
  and do not depend on this one.
\<close>

record vertex =
  v_id :: nat
  v_labels :: "string list"
  v_props :: dict

record relationship =
  r_type :: string
  r_start :: nat
  r_end :: nat
  r_props :: dict

record graphdb =
  g_vertices :: "vertex list"
  g_relationships :: "relationship list"
  g_next :: nat
  g_unique_id :: bool

definition empty_graphdb :: graphdb where
  "empty_graphdb = \<lparr>g_vertices = [], g_relationships = [], g_next = 0, g_unique_id = False\<rparr>"

text \<open>\<^verbatim>\<open>UNWIND $p AS x\<close>: one row per element of a list, none for \<^verbatim>\<open>null\<close>, one for any other value.\<close>

fun unwind :: "json \<Rightarrow> json list" where
  "unwind (JList xs) = xs"
| "unwind JNull = []"
| "unwind v = [v]"

text \<open>\<^verbatim>\<open>(n:TerraformResource {id: x})\<close> as a pattern to match; \<^verbatim>\<open>null\<close> matches nothing.\<close>

definition resources_with_id :: "json \<Rightarrow> graphdb \<Rightarrow> nat list" where
  "resources_with_id x g =
     (if x = JNull then []
      else map v_id (filter (\<lambda>v. ''TerraformResource'' \<in> set (v_labels v)
                                  \<and> map_of (v_props v) ''id'' = Some x) (g_vertices g)))"

text \<open>\<^verbatim>\<open>SET n.k = v\<close>, and \<^verbatim>\<open>SET n += m\<close> as one such step per key of \<open>m\<close>.\<close>

definition set_prop :: "string \<Rightarrow> json \<Rightarrow> dict \<Rightarrow> dict" where
  "set_prop k v ps = (if v = JNull then AList.delete k ps else AList.update k v ps)"

definition set_props :: "dict \<Rightarrow> dict \<Rightarrow> dict" where
  "set_props m ps = fold (\<lambda>kv. set_prop (fst kv) (snd kv)) m ps"

text \<open>
  One row of \<open>Merge_nodes\<close>: \<^verbatim>\<open>MERGE\<close> binds \<open>n\<close> to every matching vertex, or to a new
  one when there is none (merging on a \<^verbatim>\<open>null\<close> identifier is an error, and so is a row
  that is not a map); \<^verbatim>\<open>SET\<close> then overlays the row on each. The number counts the rows
  that reach \<^verbatim>\<open>RETURN\<close>.
\<close>

fun merge_nodes_rows :: "json list \<Rightarrow> nat \<Rightarrow> graphdb \<Rightarrow> (nat \<times> graphdb) option" where
  "merge_nodes_rows [] n g = Some (n, g)"
| "merge_nodes_rows (JObj m # rows) n g =
     (let x = dict_get m ''id'' JNull in
      if x = JNull then None
      else
        (let found = resources_with_id x g;
             g1 = (if found = []
                   then g\<lparr>g_vertices := g_vertices g @
                            [\<lparr>v_id = g_next g, v_labels = [''TerraformResource''],
                              v_props = [(''id'', x)]\<rparr>],
                          g_next := Suc (g_next g)\<rparr>
                   else g);
             bound = (if found = [] then [g_next g] else found);
             g2 = g1\<lparr>g_vertices :=
                       map (\<lambda>v. if v_id v \<in> set bound then v\<lparr>v_props := set_props m (v_props v)\<rparr>
                                else v) (g_vertices g1)\<rparr>
         in merge_nodes_rows rows (n + length bound) g2))"
| "merge_nodes_rows (_ # rows) n g = None"

text \<open>
  \<^verbatim>\<open>MERGE (source)-[r:DEPENDS_ON]->(target) SET r.label = l\<close> for one pair of bound
  ends: \<open>r\<close> is every such relationship between them, or a new one when there is none.
\<close>

definition links :: "nat \<Rightarrow> nat \<Rightarrow> relationship \<Rightarrow> bool" where
  "links a b r = (r_type r = ''DEPENDS_ON'' \<and> r_start r = a \<and> r_end r = b)"

fun merge_pairs :: "json \<Rightarrow> (nat \<times> nat) list \<Rightarrow> nat \<Rightarrow> graphdb \<Rightarrow> nat \<times> graphdb" where
  "merge_pairs l [] n g = (n, g)"
| "merge_pairs l ((a, b) # pairs) n g =
     (let old = filter (links a b) (g_relationships g);
          rs = (if old = []
                then g_relationships g @
                       [\<lparr>r_type = ''DEPENDS_ON'', r_start = a, r_end = b, r_props = []\<rparr>]
                else g_relationships g);
          g1 = g\<lparr>g_relationships :=
                    map (\<lambda>r. if links a b r then r\<lparr>r_props := set_prop ''label'' l (r_props r)\<rparr>
                             else r) rs\<rparr>
      in merge_pairs l pairs (n + max 1 (length old)) g1)"

text \<open>One row of \<open>Merge_edges\<close>: both ends are matched first; a row with an end that matches nothing is dropped.\<close>

fun merge_edges_rows :: "json list \<Rightarrow> nat \<Rightarrow> graphdb \<Rightarrow> (nat \<times> graphdb) option" where
  "merge_edges_rows [] n g = Some (n, g)"
| "merge_edges_rows (JObj m # rows) n g =
     (let sources = resources_with_id (dict_get m ''source'' JNull) g;
          targets = resources_with_id (dict_get m ''target'' JNull) g
      in case merge_pairs (dict_get m ''label'' JNull) (List.product sources targets) n g of
           (n1, g1) \<Rightarrow> merge_edges_rows rows n1 g1)"
| "merge_edges_rows (_ # rows) n g = None"

text \<open>
  \<open>Count_stats\<close>: the first \<^verbatim>\<open>MATCH\<close> gives one row per resource vertex; the
  \<^verbatim>\<open>OPTIONAL MATCH\<close>, whose pattern is not tied to \<open>n\<close>, extends each of these rows by
  every \<^verbatim>\<open>DEPENDS_ON\<close> relationship of the graph (or by \<^verbatim>\<open>null\<close> when there is none);
  \<^verbatim>\<open>count(DISTINCT n)\<close> counts the different vertices among the rows and \<^verbatim>\<open>count(r)\<close>
  the rows whose \<open>r\<close> is not \<^verbatim>\<open>null\<close>.
\<close>

definition stats_rows :: "graphdb \<Rightarrow> (nat \<times> relationship option) list" where
  "stats_rows g =
     (let ns = map v_id (filter (\<lambda>v. ''TerraformResource'' \<in> set (v_labels v)) (g_vertices g));
          rs = filter (\<lambda>r. r_type r = ''DEPENDS_ON'') (g_relationships g)
      in List.product ns (if rs = [] then [None] else map Some rs))"

text \<open>The constraint can be created only when no two resource vertices share an identifier.\<close>

definition resource_ids :: "graphdb \<Rightarrow> json list" where
  "resource_ids g =
     concat (map (\<lambda>v. if ''TerraformResource'' \<in> set (v_labels v)
                       then (case map_of (v_props v) ''id'' of None \<Rightarrow> [] | Some x \<Rightarrow> [x])
                       else []) (g_vertices g))"

fun cypher :: "request \<Rightarrow> graphdb \<Rightarrow> reply option \<times> graphdb" where
  "cypher Delete_all g = (Some [], g\<lparr>g_vertices := [], g_relationships := []\<rparr>)"
| "cypher Create_constraint g =
     (if g_unique_id g then (Some [], g)
      else if distinct (resource_ids g) then (Some [], g\<lparr>g_unique_id := True\<rparr>)
      else (None, g))"
| "cypher (Merge_nodes p) g =
     (case merge_nodes_rows (unwind p) 0 g of
        None \<Rightarrow> (None, g)
      | Some (n, g') \<Rightarrow> (Some [(''count'', int n)], g'))"
| "cypher (Merge_edges p) g =
     (case merge_edges_rows (unwind p) 0 g of
        None \<Rightarrow> (None, g)
      | Some (n, g') \<Rightarrow> (Some [(''count'', int n)], g'))"
| "cypher Count_stats g =
     (Some [(''nodes'', int (length (remdups (map fst (stats_rows g))))),
            (''relationships'', int (length (filter (\<lambda>row. snd row \<noteq> None) (stats_rows g))))], g)"
| "cypher _ g = (None, g)"

definition neo4j :: "graphdb \<Rightarrow> graphdb server" where
  "neo4j g = \<lparr>admits = (\<lambda>u n pw. True), serve = cypher, db = g, journal = []\<rparr>"

section \<open>Facts about the copying loop and the two parsing loops\<close>

lemma update_key_set: "fst ` set (AList.update k v r) = insert k (fst ` set r)"
  by (induction r) auto

text \<open>The keys of a record after the copying loop: its own, and the entry's keys that are not excluded.\<close>

lemma copy_attrs_keys:
  "fst ` set (copy_attrs excluded obj r) = fst ` set r \<union> (fst ` set obj - set excluded)"
  unfolding copy_attrs_def
proof (induction obj arbitrary: r)
  case Nil
  show ?case by simp
next
  case (Cons kv obj)
  show ?case by (simp add: Cons.IH update_key_set) blast
qed

text \<open>The copying loop leaves the value under an excluded key, and under a key the entry lacks, as it was.\<close>

lemma copy_attrs_map_of:
  "k \<in> set excluded \<or> k \<notin> fst ` set obj \<Longrightarrow>
     map_of (copy_attrs excluded obj r) k = map_of r k"
  unfolding copy_attrs_def
proof (induction obj arbitrary: r)
  case Nil
  show ?case by simp
next
  case (Cons kv obj)
  from Cons.prems have a: "k \<in> set excluded \<or> k \<notin> fst ` set obj" by auto
  show ?case
  proof (cases "fst kv \<in> set excluded")
    case True
    then show ?thesis using Cons.IH [OF a] by simp
  next
    case False
    with Cons.prems have "k \<noteq> fst kv" by auto
    then show ?thesis using False Cons.IH [OF a] by (simp add: update_conv')
  qed
qed

text \<open>On a list of dictionaries neither loop fails.\<close>

lemma nodes_loop_dicts:
  "nodes_loop R (map JObj ds) acc =
     (Inr (), acc @ map (node_record R) (filter (\<lambda>d. dict_get d ''_gvid'' JNull \<noteq> JNull) ds))"
  by (induction ds arbitrary: acc) simp_all

lemma edges_loop_dicts:
  "edges_loop R (map JObj ds) acc = (Inr (), acc @ map (edge_record R) ds)"
  by (induction ds arbitrary: acc) simp_all

text \<open>A loop that ends without an exception has met dictionaries only.\<close>

lemma nodes_loop_Inr:
  "nodes_loop R es acc = (Inr u, out) \<Longrightarrow> \<exists>ds. es = map JObj ds"
proof (induction es arbitrary: acc)
  case Nil
  show ?case by simp
next
  case (Cons e es)
  show ?case
  proof (cases e)
    case (JObj obj)
    from Cons.prems JObj obtain acc' where "nodes_loop R es acc' = (Inr u, out)"
      by (cases "dict_get obj ''_gvid'' JNull = JNull") auto
    from Cons.IH [OF this] obtain ds where "es = map JObj ds" ..
    with JObj have "e # es = map JObj (obj # ds)" by simp
    then show ?thesis ..
  qed (use Cons.prems in simp_all)
qed

lemma edges_loop_Inr:
  "edges_loop R es acc = (Inr u, out) \<Longrightarrow> \<exists>ds. es = map JObj ds"
proof (induction es arbitrary: acc)
  case Nil
  show ?case by simp
next
  case (Cons e es)
  show ?case
  proof (cases e)
    case (JObj obj)
    from Cons.prems JObj have "edges_loop R es (acc @ [edge_record R obj]) = (Inr u, out)"
      by simp
    from Cons.IH [OF this] obtain ds where "es = map JObj ds" ..
    with JObj have "e # es = map JObj (obj # ds)" by simp
    then show ?thesis ..
  qed (use Cons.prems in simp_all)
qed

section \<open>Facts about the parser\<close>

lemma dict_get_present:
  "(dict_get d k JNull \<noteq> JNull) = (map_of d k \<noteq> None \<and> map_of d k \<noteq> Some JNull)"
  by (auto simp: dict_get_def split: option.splits)

lemma parse_nodes_Inr:
  assumes "parse_nodes R p = (Inr recs, p')"
      and "py_get (raw_data p) ''objects'' (JList []) = Inr v"
      and "py_iter v = Inr es"
  shows "\<exists>ds. es = map JObj ds
           \<and> recs = map (node_record R) (filter (\<lambda>d. dict_get d ''_gvid'' JNull \<noteq> JNull) ds)"
proof -
  from assms have run: "nodes_loop R es [] = (Inr (), recs)"
    by (auto simp: parse_nodes_def split: if_splits prod.splits sum.splits)
  from nodes_loop_Inr [OF run] obtain ds where ds: "es = map JObj ds" ..
  with run have "recs = map (node_record R) (filter (\<lambda>d. dict_get d ''_gvid'' JNull \<noteq> JNull) ds)"
    by (simp add: nodes_loop_dicts)
  with ds show ?thesis by blast
qed

lemma parse_edges_Inr:
  assumes "parse_edges R p = (Inr recs, p')"
      and "py_get (raw_data p) ''edges'' (JList []) = Inr v"
      and "py_iter v = Inr es"
  shows "\<exists>ds. es = map JObj ds \<and> recs = map (edge_record R) ds"
proof -
  from assms have run: "edges_loop R es [] = (Inr (), recs)"
    by (auto simp: parse_edges_def split: if_splits prod.splits sum.splits)
  from edges_loop_Inr [OF run] obtain ds where ds: "es = map JObj ds" ..
  with run have "recs = map (edge_record R) ds"
    by (simp add: edges_loop_dicts)
  with ds show ?thesis by blast
qed

lemma parse_nodes_records:
  assumes "parse_nodes R p = (Inr recs, p')"
  shows "\<exists>ds. recs = map (node_record R) ds"
proof -
  from assms obtain v es where "py_get (raw_data p) ''objects'' (JList []) = Inr v" "py_iter v = Inr es"
    by (auto simp: parse_nodes_def split: if_splits prod.splits sum.splits)
  from parse_nodes_Inr [OF assms this] show ?thesis by blast
qed

lemma parse_edges_records:
  assumes "parse_edges R p = (Inr recs, p')"
  shows "\<exists>ds. recs = map (edge_record R) ds"
proof -
  from assms obtain v es where "py_get (raw_data p) ''edges'' (JList []) = Inr v" "py_iter v = Inr es"
    by (auto simp: parse_edges_def split: if_splits prod.splits sum.splits)
  from parse_edges_Inr [OF assms this] show ?thesis by blast
qed

lemma node_record_extra_keys:
  "(fst ` set (node_record R obj) - {''id'', ''name'', ''label''}) \<inter> set node_excluded = {}"
  unfolding node_record_def copy_attrs_keys by auto

lemma edge_record_extra_keys:
  "(fst ` set (edge_record R obj) - {''source'', ''target'', ''label''}) \<inter> set edge_excluded = {}"
  unfolding edge_record_def copy_attrs_keys by auto

lemma node_record_label:
  "map_of (node_record R obj) ''label'' = Some (dict_get obj ''label'' (dict_get obj ''name'' (JStr [])))"
  unfolding node_record_def by (subst copy_attrs_map_of) (simp_all add: node_excluded_def)

lemma edge_record_label:
  "map_of (edge_record R obj) ''label'' = Some (dict_get obj ''label'' (JStr ''DEPENDS_ON''))"
  unfolding edge_record_def by (subst copy_attrs_map_of) (simp_all add: edge_excluded_def)

lemma edge_record_source:
  "map_of obj ''source'' = None \<Longrightarrow>
     map_of (edge_record R obj) ''source'' = Some (JStr (py_str R (dict_get obj ''tail'' JNull)))"
  unfolding edge_record_def by (subst copy_attrs_map_of) (simp_all add: map_of_eq_None_iff)

lemma edge_record_target:
  "map_of obj ''target'' = None \<Longrightarrow>
     map_of (edge_record R obj) ''target'' = Some (JStr (py_str R (dict_get obj ''head'' JNull)))"
  unfolding edge_record_def by (subst copy_attrs_map_of) (simp_all add: map_of_eq_None_iff)

section \<open>Parsing needs a loaded document\<close>

text \<open>
  Before any load the stored document is \<^verbatim>\<open>None\<close> and all three operations raise the
  error of a parser that was not loaded; a load that fails leaves the parser as it was.
\<close>

lemma parse_before_load:
  "parse_nodes R (init_parser path) = (Inl not_loaded, init_parser path)"
  "parse_edges R (init_parser path) = (Inl not_loaded, init_parser path)"
  "get_graph_metadata (init_parser path) = Inl not_loaded"
  by (simp_all add: parse_nodes_def parse_edges_def get_graph_metadata_def init_parser_def)

lemma load_graph_failed:
  "load_graph fs p = (Inl e, p') \<Longrightarrow> p' = p"
  by (auto simp: load_graph_def split: option.splits content.splits)

text \<open>
  Claim C2. \<^verbatim>\<open>parse_nodes\<close> is to raise the not-loaded error exactly when no load has
  succeeded. The guard is \<^verbatim>\<open>if not self.raw_data\<close>, which is also true of a loaded
  document that is empty: for a file holding \<^verbatim>\<open>{}\<close> the load succeeds and
  \<^verbatim>\<open>parse_nodes\<close> still raises "Graph data not loaded. Call load_graph() first.", and so
  do \<^verbatim>\<open>parse_edges\<close> and \<^verbatim>\<open>get_graph_metadata\<close>.
\<close>

theorem parse_nodes_rejects_loaded_empty_document:
  "load_graph [''graph.json'' \<mapsto> Decoded (JObj [])] (init_parser ''graph.json'')
     = (Inr (), \<lparr>file_path = ''graph.json'', raw_data = JObj [], nodes = [], edges = []\<rparr>)
   \<and> parse_nodes (\<lambda>v. []) \<lparr>file_path = ''graph.json'', raw_data = JObj [], nodes = [], edges = []\<rparr>
     = (Inl (ValueError ''Graph data not loaded. Call load_graph() first.''),
        \<lparr>file_path = ''graph.json'', raw_data = JObj [], nodes = [], edges = []\<rparr>)
   \<and> parse_edges (\<lambda>v. []) \<lparr>file_path = ''graph.json'', raw_data = JObj [], nodes = [], edges = []\<rparr>
     = (Inl (ValueError ''Graph data not loaded. Call load_graph() first.''),
        \<lparr>file_path = ''graph.json'', raw_data = JObj [], nodes = [], edges = []\<rparr>)
   \<and> get_graph_metadata \<lparr>file_path = ''graph.json'', raw_data = JObj [], nodes = [], edges = []\<rparr>
     = Inl (ValueError ''Graph data not loaded. Call load_graph() first.'')"
  by (simp add: load_graph_def init_parser_def parse_nodes_def parse_edges_def
        get_graph_metadata_def not_loaded_def)

section \<open>A missing password ends the run before the store is touched\<close>

text \<open>
  Claim C9. When the environment has no \<^verbatim>\<open>NEO4J_PASSWORD\<close>, \<^verbatim>\<open>main\<close> reports the missing
  password and exits with status 1, and the world is as it was: the store's journal has
  no greeting and no query, no file was written and the pipeline did not run.
\<close>

theorem main_without_password:
  assumes "environ w ''NEO4J_PASSWORD'' = None"
  shows "main R a w = (1, [Password_not_set], w)"
  using assms by (simp add: main_def)

theorem main_without_password_witness:
  "main (\<lambda>v. []) \<lparr>graph_file = ''graph.json'', skip_generate = True, no_clear = False\<rparr>
        \<lparr>environ = Map.empty, disk = Map.empty,
         generate_terraform_graph = (\<lambda>f fs. (True, fs)), store = neo4j empty_graphdb\<rparr>
     = (1, [Password_not_set],
        \<lparr>environ = Map.empty, disk = Map.empty,
         generate_terraform_graph = (\<lambda>f fs. (True, fs)), store = neo4j empty_graphdb\<rparr>)"
  by (rule main_without_password) simp

section \<open>Default labels\<close>

text \<open>
  Claim C5. For every entry of the objects collection that \<^verbatim>\<open>parse_nodes\<close> keeps (a
  dictionary with an identifier that is not \<^verbatim>\<open>None\<close>) and that has no \<^verbatim>\<open>label\<close> field,
  the record built for it is among the returned ones and its label is the entry's name,
  the empty string when the entry has no name either.
\<close>

theorem node_label_defaults_to_name:
  assumes "parse_nodes R p = (Inr recs, p')"
      and "py_get (raw_data p) ''objects'' (JList []) = Inr v"
      and "py_iter v = Inr es"
      and "JObj obj \<in> set es"
      and "dict_get obj ''_gvid'' JNull \<noteq> JNull"
      and "map_of obj ''label'' = None"
  shows "node_record R obj \<in> set recs
       \<and> map_of (node_record R obj) ''label'' = Some (dict_get obj ''name'' (JStr []))
       \<and> (map_of obj ''name'' = None \<longrightarrow> map_of (node_record R obj) ''label'' = Some (JStr []))"
proof -
  from parse_nodes_Inr [OF assms(1-3)] obtain ds where
    ds: "es = map JObj ds"
    and recs: "recs = map (node_record R) (filter (\<lambda>d. dict_get d ''_gvid'' JNull \<noteq> JNull) ds)"
    by blast
  from ds assms(4) have "obj \<in> set ds" by auto
  with recs assms(5) have member: "node_record R obj \<in> set recs" by simp
  from assms(6) have label: "map_of (node_record R obj) ''label'' = Some (dict_get obj ''name'' (JStr []))"
    by (simp add: node_record_label dict_get_def)
  show ?thesis using member label by (simp add: dict_get_def)
qed

theorem node_label_defaults_to_name_witness:
  "node_record (\<lambda>v. []) [(''_gvid'', JInt 7), (''name'', JStr ''aws_instance.web'')]
     \<in> set [[(''id'', JStr ''7''), (''name'', JStr ''aws_instance.web''),
              (''label'', JStr ''aws_instance.web'')]]
   \<and> map_of (node_record (\<lambda>v. []) [(''_gvid'', JInt 7), (''name'', JStr ''aws_instance.web'')]) ''label''
       = Some (JStr ''aws_instance.web'')"
proof -
  let ?obj = "[(''_gvid'', JInt 7), (''name'', JStr ''aws_instance.web'')]"
  let ?doc = "JObj [(''objects'', JList [JObj ?obj, JObj [(''name'', JStr ''legend'')]])]"
  let ?p = "\<lparr>file_path = ''graph.json'', raw_data = ?doc, nodes = [], edges = []\<rparr>"
  let ?recs = "[[(''id'', JStr ''7''), (''name'', JStr ''aws_instance.web''),
                 (''label'', JStr ''aws_instance.web'')]]"
  have h1: "parse_nodes (\<lambda>v. []) ?p = (Inr ?recs, ?p\<lparr>nodes := ?recs\<rparr>)"
    by code_simp
  have h2: "py_get (raw_data ?p) ''objects'' (JList [])
              = Inr (JList [JObj ?obj, JObj [(''name'', JStr ''legend'')]])"
    by (simp add: dict_get_def)
  have h3: "py_iter (JList [JObj ?obj, JObj [(''name'', JStr ''legend'')]])
              = Inr [JObj ?obj, JObj [(''name'', JStr ''legend'')]]"
    by simp
  have h4: "JObj ?obj \<in> set [JObj ?obj, JObj [(''name'', JStr ''legend'')]]" by simp
  have h5: "dict_get ?obj ''_gvid'' JNull \<noteq> JNull" by (simp add: dict_get_def)
  have h6: "map_of ?obj ''label'' = None" by simp
  from node_label_defaults_to_name [OF h1 h2 h3 h4 h5 h6] show ?thesis
    by (simp add: dict_get_def)
qed

text \<open>
  Claim C6. For every entry of the edges collection without a \<^verbatim>\<open>label\<close> field, the record
  that \<^verbatim>\<open>parse_edges\<close> returns for it has the label \<^verbatim>\<open>DEPENDS_ON\<close>.
\<close>

theorem edge_label_defaults_to_sentinel:
  assumes "parse_edges R p = (Inr recs, p')"
      and "py_get (raw_data p) ''edges'' (JList []) = Inr v"
      and "py_iter v = Inr es"
      and "JObj edge_data \<in> set es"
      and "map_of edge_data ''label'' = None"
  shows "edge_record R edge_data \<in> set recs
       \<and> map_of (edge_record R edge_data) ''label'' = Some (JStr ''DEPENDS_ON'')"
proof -
  from parse_edges_Inr [OF assms(1-3)] obtain ds where
    ds: "es = map JObj ds" and recs: "recs = map (edge_record R) ds"
    by blast
  from ds assms(4) have "edge_data \<in> set ds" by auto
  with recs have member: "edge_record R edge_data \<in> set recs" by simp
  from assms(5) show ?thesis using member by (simp add: edge_record_label dict_get_def)
qed

theorem edge_label_defaults_to_sentinel_witness:
  "edge_record (\<lambda>v. []) [(''tail'', JInt 0), (''head'', JInt 1)]
     \<in> set [[(''source'', JStr ''0''), (''target'', JStr ''1''), (''label'', JStr ''DEPENDS_ON'')]]
   \<and> map_of (edge_record (\<lambda>v. []) [(''tail'', JInt 0), (''head'', JInt 1)]) ''label''
       = Some (JStr ''DEPENDS_ON'')"
proof -
  let ?e = "[(''tail'', JInt 0), (''head'', JInt 1)]"
  let ?p = "\<lparr>file_path = ''graph.json'', raw_data = JObj [(''edges'', JList [JObj ?e])],
             nodes = [], edges = []\<rparr>"
  let ?recs = "[[(''source'', JStr ''0''), (''target'', JStr ''1''), (''label'', JStr ''DEPENDS_ON'')]]"
  have h1: "parse_edges (\<lambda>v. []) ?p = (Inr ?recs, ?p\<lparr>edges := ?recs\<rparr>)"
    by code_simp
  have h2: "py_get (raw_data ?p) ''edges'' (JList []) = Inr (JList [JObj ?e])"
    by (simp add: dict_get_def)
  have h3: "py_iter (JList [JObj ?e]) = Inr [JObj ?e]" by simp
  have h4: "JObj ?e \<in> set [JObj ?e]" by simp
  have h5: "map_of ?e ''label'' = None" by simp
  from edge_label_defaults_to_sentinel [OF h1 h2 h3 h4 h5] show ?thesis by simp
qed

section \<open>Keys that are never copied\<close>

text \<open>
  Claim C1, as the code has it. In every record that \<^verbatim>\<open>parse_nodes\<close> returns, the keys
  beyond the three fixed fields \<^verbatim>\<open>id\<close>, \<^verbatim>\<open>name\<close>, \<^verbatim>\<open>label\<close> are none of \<^verbatim>\<open>_gvid\<close>,
  \<^verbatim>\<open>name\<close>, \<^verbatim>\<open>label\<close>, \<^verbatim>\<open>_draw_\<close>, \<^verbatim>\<open>_ldraw_\<close>; in every record that \<^verbatim>\<open>parse_edges\<close>
  returns, the keys beyond \<^verbatim>\<open>source\<close>, \<^verbatim>\<open>target\<close>, \<^verbatim>\<open>label\<close> are none of \<^verbatim>\<open>tail\<close>,
  \<^verbatim>\<open>head\<close>, \<^verbatim>\<open>label\<close>, \<^verbatim>\<open>_draw_\<close>, \<^verbatim>\<open>_ldraw_\<close>, \<^verbatim>\<open>_hdraw_\<close>. The list for edges has the
  drawing key of the label and not the one of the tail.
\<close>

theorem excluded_keys_not_copied:
  "(parse_nodes R p = (Inr ns, pn) \<longrightarrow>
      (\<forall>r \<in> set ns. (fst ` set r - {''id'', ''name'', ''label''}) \<inter> set node_excluded = {}))
   \<and> (parse_edges R p = (Inr es, pe) \<longrightarrow>
      (\<forall>r \<in> set es. (fst ` set r - {''source'', ''target'', ''label''}) \<inter> set edge_excluded = {}))"
proof (intro conjI impI ballI)
  fix r assume "parse_nodes R p = (Inr ns, pn)" and "r \<in> set ns"
  with parse_nodes_records obtain d where "r = node_record R d" by fastforce
  then show "(fst ` set r - {''id'', ''name'', ''label''}) \<inter> set node_excluded = {}"
    by (simp only: node_record_extra_keys)
next
  fix r assume "parse_edges R p = (Inr es, pe)" and "r \<in> set es"
  with parse_edges_records obtain d where "r = edge_record R d" by fastforce
  then show "(fst ` set r - {''source'', ''target'', ''label''}) \<inter> set edge_excluded = {}"
    by (simp only: edge_record_extra_keys)
qed

theorem excluded_keys_not_copied_witness:
  "(fst ` set [(''id'', JStr ''0''), (''name'', JStr ''web''), (''label'', JStr ''web''),
               (''shape'', JStr ''box'')] - {''id'', ''name'', ''label''})
     \<inter> set node_excluded = {}
   \<and> (fst ` set [(''source'', JStr ''0''), (''target'', JStr ''1''), (''label'', JStr ''DEPENDS_ON''),
                 (''pos'', JStr ''e,1,2'')] - {''source'', ''target'', ''label''})
     \<inter> set edge_excluded = {}"
proof -
  let ?p = "\<lparr>file_path = ''graph.json'',
             raw_data = JObj [(''objects'', JList [JObj [(''_gvid'', JInt 0), (''name'', JStr ''web''),
                                                       (''_draw_'', JList []), (''shape'', JStr ''box'')]]),
                              (''edges'', JList [JObj [(''tail'', JInt 0), (''head'', JInt 1),
                                                     (''_hdraw_'', JList []), (''pos'', JStr ''e,1,2'')]])],
             nodes = [], edges = []\<rparr>"
  let ?n = "[(''id'', JStr ''0''), (''name'', JStr ''web''), (''label'', JStr ''web''),
             (''shape'', JStr ''box'')]"
  let ?e = "[(''source'', JStr ''0''), (''target'', JStr ''1''), (''label'', JStr ''DEPENDS_ON''),
             (''pos'', JStr ''e,1,2'')]"
  have h1: "parse_nodes (\<lambda>v. []) ?p = (Inr [?n], ?p\<lparr>nodes := [?n]\<rparr>)" by code_simp
  have h2: "parse_edges (\<lambda>v. []) ?p = (Inr [?e], ?p\<lparr>edges := [?e]\<rparr>)" by code_simp
  from excluded_keys_not_copied [of "\<lambda>v. []" ?p "[?n]" "?p\<lparr>nodes := [?n]\<rparr>" "[?e]" "?p\<lparr>edges := [?e]\<rparr>"]
    h1 h2 show ?thesis by simp
qed

text \<open>
  The claim as stated also excludes the drawing key of the tail for edges. The code
  copies it: an edge entry with \<^verbatim>\<open>_tdraw_\<close> gives a record that has this key.
\<close>

theorem tail_draw_key_is_copied:
  "fst (parse_edges (\<lambda>v. [])
         \<lparr>file_path = ''graph.json'',
          raw_data = JObj [(''edges'', JList [JObj [(''tail'', JInt 0), (''head'', JInt 1),
                                                  (''_tdraw_'', JStr ''S 5 -solid'')]])],
          nodes = [], edges = []\<rparr>)
     = Inr [[(''source'', JStr ''0''), (''target'', JStr ''1''), (''label'', JStr ''DEPENDS_ON''),
             (''_tdraw_'', JStr ''S 5 -solid'')]]"
  by code_simp

section \<open>One record per entry\<close>

text \<open>
  Claim C3, as the code has it. Let the loaded document be an object with at least one
  member whose \<^verbatim>\<open>objects\<close> collection (the empty list when absent) is a list of
  objects. Then \<^verbatim>\<open>parse_nodes\<close> returns, in document order, one record for each entry
  whose identifier field is present and not \<^verbatim>\<open>null\<close>, stores that list, and skips the
  other entries; so the length of the result is the number of such entries.
\<close>

theorem parse_nodes_one_record_per_identified_entry:
  assumes "raw_data p = JObj doc"
      and "doc \<noteq> []"
      and "dict_get doc ''objects'' (JList []) = JList (map JObj ds)"
  shows "\<exists>recs. parse_nodes R p = (Inr recs, p\<lparr>nodes := recs\<rparr>)
           \<and> recs = map (node_record R)
                       (filter (\<lambda>d. map_of d ''_gvid'' \<noteq> None \<and> map_of d ''_gvid'' \<noteq> Some JNull) ds)
           \<and> length recs
               = length (filter (\<lambda>d. map_of d ''_gvid'' \<noteq> None \<and> map_of d ''_gvid'' \<noteq> Some JNull) ds)"
  using assms
  by (simp add: parse_nodes_def nodes_loop_dicts dict_get_present)

theorem parse_nodes_one_record_per_identified_entry_witness:
  "\<exists>recs. parse_nodes (\<lambda>v. [])
             \<lparr>file_path = ''graph.json'',
              raw_data = JObj [(''objects'', JList (map JObj [[(''_gvid'', JInt 0), (''name'', JStr ''web'')],
                                                              [(''name'', JStr ''legend'')],
                                                              [(''_gvid'', JInt 2)]]))],
              nodes = [], edges = []\<rparr>
           = (Inr recs,
              \<lparr>file_path = ''graph.json'',
               raw_data = JObj [(''objects'', JList (map JObj [[(''_gvid'', JInt 0), (''name'', JStr ''web'')],
                                                               [(''name'', JStr ''legend'')],
                                                               [(''_gvid'', JInt 2)]]))],
               nodes = recs, edges = []\<rparr>)
         \<and> length recs = 2"
proof -
  let ?ds = "[[(''_gvid'', JInt 0), (''name'', JStr ''web'')], [(''name'', JStr ''legend'')],
              [(''_gvid'', JInt 2)]]"
  let ?doc = "[(''objects'', JList (map JObj ?ds))]"
  let ?p = "\<lparr>file_path = ''graph.json'', raw_data = JObj ?doc, nodes = [], edges = []\<rparr>"
  have h1: "raw_data ?p = JObj ?doc" by simp
  have h2: "?doc \<noteq> []" by simp
  have h3: "dict_get ?doc ''objects'' (JList []) = JList (map JObj ?ds)" by (simp add: dict_get_def)
  from parse_nodes_one_record_per_identified_entry [OF h1 h2 h3, of "\<lambda>v. []"]
  obtain recs where a: "parse_nodes (\<lambda>v. []) ?p = (Inr recs, ?p\<lparr>nodes := recs\<rparr>)"
    and b: "length recs = length (filter (\<lambda>d. map_of d ''_gvid'' \<noteq> None \<and> map_of d ''_gvid'' \<noteq> Some JNull) ?ds)"
    by blast
  from b have "length recs = 2" by simp
  with a show ?thesis by auto
qed

text \<open>
  The claim as stated counts every entry that carries the identifier field. An entry
  whose identifier is \<^verbatim>\<open>null\<close> carries the field and is skipped all the same, since the
  test is \<^verbatim>\<open>obj.get('_gvid') is None\<close>.
\<close>

theorem parse_nodes_skips_null_identifier:
  "fst (parse_nodes (\<lambda>v. [])
         (snd (load_graph
                 [''graph.json'' \<mapsto>
                    Decoded (JObj [(''objects'', JList [JObj [(''_gvid'', JNull), (''name'', JStr ''web'')]])])]
                 (init_parser ''graph.json'')))) = Inr []
   \<and> length (filter (\<lambda>d. map_of d ''_gvid'' \<noteq> None) [[(''_gvid'', JNull), (''name'', JStr ''web'')]]) = 1"
  by code_simp

section \<open>Metadata\<close>

text \<open>
  Claim C7, as the code has it. When the loaded document is an object with at least one
  member, \<^verbatim>\<open>get_graph_metadata\<close> returns its \<^verbatim>\<open>name\<close>, \<^verbatim>\<open>directed\<close> and \<^verbatim>\<open>strict\<close> fields,
  defaulting to \<^verbatim>\<open>terraform_graph\<close>, \<^verbatim>\<open>True\<close> and \<^verbatim>\<open>False\<close>, and the lengths of the stored
  node and edge lists; right after the load of a new parser both counts are zero.
\<close>

theorem metadata_of_loaded_object:
  assumes "doc \<noteq> []"
  shows "(raw_data p = JObj doc \<longrightarrow>
            get_graph_metadata p =
              Inr [(''name'', dict_get doc ''name'' (JStr ''terraform_graph'')),
                   (''directed'', dict_get doc ''directed'' (JBool True)),
                   (''strict'', dict_get doc ''strict'' (JBool False)),
                   (''node_count'', JInt (int (length (nodes p)))),
                   (''edge_count'', JInt (int (length (edges p))))])
       \<and> (fs path = Some (Decoded (JObj doc)) \<longrightarrow>
            get_graph_metadata (snd (load_graph fs (init_parser path))) =
              Inr [(''name'', dict_get doc ''name'' (JStr ''terraform_graph'')),
                   (''directed'', dict_get doc ''directed'' (JBool True)),
                   (''strict'', dict_get doc ''strict'' (JBool False)),
                   (''node_count'', JInt 0),
                   (''edge_count'', JInt 0)])"
  using assms
  by (simp add: get_graph_metadata_def load_graph_def init_parser_def)

theorem metadata_of_loaded_object_witness:
  "get_graph_metadata
     \<lparr>file_path = ''graph.json'', raw_data = JObj [(''name'', JStr ''G''), (''strict'', JBool True)],
      nodes = [[(''id'', JStr ''0'')], [(''id'', JStr ''1'')]], edges = [[(''source'', JStr ''0'')]]\<rparr>
     = Inr [(''name'', JStr ''G''), (''directed'', JBool True), (''strict'', JBool True),
            (''node_count'', JInt 2), (''edge_count'', JInt 1)]
   \<and> get_graph_metadata
       (snd (load_graph [''graph.json'' \<mapsto> Decoded (JObj [(''name'', JStr ''G''), (''strict'', JBool True)])]
               (init_parser ''graph.json'')))
     = Inr [(''name'', JStr ''G''), (''directed'', JBool True), (''strict'', JBool True),
            (''node_count'', JInt 0), (''edge_count'', JInt 0)]"
proof -
  let ?doc = "[(''name'', JStr ''G''), (''strict'', JBool True)]"
  let ?p = "\<lparr>file_path = ''graph.json'', raw_data = JObj ?doc,
             nodes = [[(''id'', JStr ''0'')], [(''id'', JStr ''1'')]], edges = [[(''source'', JStr ''0'')]]\<rparr>"
  have h: "?doc \<noteq> []" by simp
  from metadata_of_loaded_object [OF h, of ?p "[''graph.json'' \<mapsto> Decoded (JObj ?doc)]" "''graph.json''"]
  show ?thesis by (simp add: dict_get_def)
qed

text \<open>
  The claim as stated is for every document that loads. A JSON array loads as well, and
  there \<^verbatim>\<open>self.raw_data.get\<close> raises \<^verbatim>\<open>AttributeError\<close>: no metadata is returned.
\<close>

theorem metadata_of_loaded_array:
  "load_graph [''graph.json'' \<mapsto> Decoded (JList [JObj [(''name'', JStr ''G'')]])] (init_parser ''graph.json'')
     = (Inr (), \<lparr>file_path = ''graph.json'', raw_data = JList [JObj [(''name'', JStr ''G'')]],
                 nodes = [], edges = []\<rparr>)
   \<and> get_graph_metadata
       \<lparr>file_path = ''graph.json'', raw_data = JList [JObj [(''name'', JStr ''G'')]],
        nodes = [], edges = []\<rparr> = Inl AttributeError"
  by (simp add: load_graph_def init_parser_def get_graph_metadata_def)

section \<open>Edges are never skipped\<close>

text \<open>
  Claim C10, as the code has it. Let the loaded document be an object with at least one
  member whose \<^verbatim>\<open>edges\<close> collection (the empty list when absent) is a list of objects.
  Then \<^verbatim>\<open>parse_edges\<close> returns one record per entry, in document order, and raises
  nothing. For an entry without \<^verbatim>\<open>tail\<close> the source is the text \<^verbatim>\<open>None\<close>, unless the entry
  has a field named \<^verbatim>\<open>source\<close> of its own, which the copying loop then writes over it;
  likewise for \<^verbatim>\<open>head\<close> and \<^verbatim>\<open>target\<close>.
\<close>

theorem parse_edges_keeps_every_entry:
  assumes "raw_data p = JObj doc"
      and "doc \<noteq> []"
      and "dict_get doc ''edges'' (JList []) = JList (map JObj ds)"
  shows "parse_edges R p = (Inr (map (edge_record R) ds), p\<lparr>edges := map (edge_record R) ds\<rparr>)
       \<and> (\<forall>d \<in> set ds.
             (map_of d ''tail'' = None \<and> map_of d ''source'' = None \<longrightarrow>
                map_of (edge_record R d) ''source'' = Some (JStr ''None''))
           \<and> (map_of d ''head'' = None \<and> map_of d ''target'' = None \<longrightarrow>
                map_of (edge_record R d) ''target'' = Some (JStr ''None'')))"
  using assms
  by (simp add: parse_edges_def edges_loop_dicts edge_record_source edge_record_target dict_get_def)

theorem parse_edges_keeps_every_entry_witness:
  "parse_edges (\<lambda>v. [])
     \<lparr>file_path = ''graph.json'',
      raw_data = JObj [(''edges'', JList (map JObj [[(''head'', JInt 1)], [(''tail'', JInt 0)]]))],
      nodes = [], edges = []\<rparr>
     = (Inr [[(''source'', JStr ''None''), (''target'', JStr ''1''), (''label'', JStr ''DEPENDS_ON'')],
             [(''source'', JStr ''0''), (''target'', JStr ''None''), (''label'', JStr ''DEPENDS_ON'')]],
        \<lparr>file_path = ''graph.json'',
         raw_data = JObj [(''edges'', JList (map JObj [[(''head'', JInt 1)], [(''tail'', JInt 0)]]))],
         nodes = [],
         edges = [[(''source'', JStr ''None''), (''target'', JStr ''1''), (''label'', JStr ''DEPENDS_ON'')],
                  [(''source'', JStr ''0''), (''target'', JStr ''None''), (''label'', JStr ''DEPENDS_ON'')]]\<rparr>)
   \<and> map_of (edge_record (\<lambda>v. []) [(''head'', JInt 1)]) ''source'' = Some (JStr ''None'')
   \<and> map_of (edge_record (\<lambda>v. []) [(''tail'', JInt 0)]) ''target'' = Some (JStr ''None'')"
proof -
  let ?ds = "[[(''head'', JInt 1)], [(''tail'', JInt 0)]]"
  let ?doc = "[(''edges'', JList (map JObj ?ds))]"
  let ?p = "\<lparr>file_path = ''graph.json'', raw_data = JObj ?doc, nodes = [], edges = []\<rparr>"
  have h1: "raw_data ?p = JObj ?doc" by simp
  have h2: "?doc \<noteq> []" by simp
  have h3: "dict_get ?doc ''edges'' (JList []) = JList (map JObj ?ds)" by (simp add: dict_get_def)
  have e1: "edge_record (\<lambda>v. []) [(''head'', JInt 1)]
              = [(''source'', JStr ''None''), (''target'', JStr ''1''), (''label'', JStr ''DEPENDS_ON'')]"
    by code_simp
  have e2: "edge_record (\<lambda>v. []) [(''tail'', JInt 0)]
              = [(''source'', JStr ''0''), (''target'', JStr ''None''), (''label'', JStr ''DEPENDS_ON'')]"
    by code_simp
  from parse_edges_keeps_every_entry [OF h1 h2 h3, of "\<lambda>v. []"] show ?thesis
    by (simp add: e1 e2)
qed

text \<open>
  The claim as stated gives the source \<^verbatim>\<open>None\<close> to every entry without \<^verbatim>\<open>tail\<close>. An entry
  that has no \<^verbatim>\<open>tail\<close> but a field \<^verbatim>\<open>source\<close> keeps the value of that field as its source.
\<close>

theorem source_field_overrides_missing_tail:
  "map_of [(''head'', JInt 1), (''source'', JStr ''x'')] ''tail'' = None
   \<and> fst (parse_edges (\<lambda>v. [])
           \<lparr>file_path = ''graph.json'',
            raw_data = JObj [(''edges'', JList [JObj [(''head'', JInt 1), (''source'', JStr ''x'')]])],
            nodes = [], edges = []\<rparr>)
     = Inr [[(''source'', JStr ''x''), (''target'', JStr ''1''), (''label'', JStr ''DEPENDS_ON'')]]"
  by code_simp

section \<open>The order of the requests of an ingestion\<close>

text \<open>What each method of the loader adds to the journal of the server.\<close>

lemma session_run_journal:
  "session_run q srv = (r, s) \<Longrightarrow> journal s = journal srv @ [q]"
  by (auto simp: session_run_def split: prod.splits option.splits)

lemma clear_database_journal:
  "clear_database c srv = (r, s) \<Longrightarrow>
     (r = Inr () \<and> journal s = journal srv @ [Delete_all])
     \<or> (\<exists>e. r = Inl e \<and> (journal s = journal srv \<or> journal s = journal srv @ [Delete_all]))"
  by (auto simp: clear_database_def split: if_splits prod.splits sum.splits dest: session_run_journal)

lemma create_constraints_journal:
  "create_constraints c srv = (r, s) \<Longrightarrow>
     (r = Inr () \<and> journal s = journal srv @ [Create_constraint])
     \<or> (\<exists>e. r = Inl e \<and> journal s = journal srv)"
  by (auto simp: create_constraints_def split: if_splits prod.splits sum.splits dest: session_run_journal)

lemma ingest_nodes_journal:
  "ingest_nodes c ns srv = (r, s) \<Longrightarrow>
     ((\<exists>n. r = Inr n) \<and> journal s = journal srv @ (if truthy ns then [Merge_nodes ns] else []))
     \<or> (\<exists>e. r = Inl e \<and> truthy ns \<and> (journal s = journal srv \<or> journal s = journal srv @ [Merge_nodes ns]))"
  by (auto simp: ingest_nodes_def field_def split: if_splits prod.splits sum.splits option.splits
           dest: session_run_journal)

lemma ingest_edges_journal:
  "ingest_edges c es srv = (r, s) \<Longrightarrow>
     ((\<exists>n. r = Inr n) \<and> journal s = journal srv @ (if truthy es then [Merge_edges es] else []))
     \<or> (\<exists>e. r = Inl e \<and> truthy es \<and> (journal s = journal srv \<or> journal s = journal srv @ [Merge_edges es]))"
  by (auto simp: ingest_edges_def field_def split: if_splits prod.splits sum.splits option.splits
           dest: session_run_journal)

text \<open>
  However an ingestion ends, the requests it has sent are an initial part of: the
  deletion (when clearing is asked for), the constraint, the node upsert (when there are
  nodes), the edge upsert (when there are edges).
\<close>

lemma ingest_graph_journal:
  assumes "ingest_graph c g clear srv = (res, srv')"
  shows "prefix (journal srv) (journal srv')
       \<and> prefix (journal srv')
           (journal srv @ (if clear then [Delete_all] else []) @ [Create_constraint]
              @ (if truthy (dict_get g ''nodes'' (JList [])) then [Merge_nodes (dict_get g ''nodes'' (JList []))] else [])
              @ (if truthy (dict_get g ''edges'' (JList [])) then [Merge_edges (dict_get g ''edges'' (JList []))] else []))"
proof -
  let ?ns = "dict_get g ''nodes'' (JList [])"
  let ?es = "dict_get g ''edges'' (JList [])"
  obtain r1 s1 where 1: "(if clear then clear_database c srv else (Inr (), srv)) = (r1, s1)"
    by fastforce
  then have j1: "(r1 = Inr () \<and> journal s1 = journal srv @ (if clear then [Delete_all] else []))
      \<or> (\<exists>e. r1 = Inl e \<and> clear \<and> (journal s1 = journal srv \<or> journal s1 = journal srv @ [Delete_all]))"
    using clear_database_journal [of c srv r1 s1] by (cases clear) auto
  obtain r2 s2 where 2: "create_constraints c s1 = (r2, s2)" by fastforce
  note j2 = create_constraints_journal [OF 2]
  obtain r3 s3 where 3: "ingest_nodes c ?ns s2 = (r3, s3)" by fastforce
  note j3 = ingest_nodes_journal [OF 3]
  obtain r4 s4 where 4: "ingest_edges c ?es s3 = (r4, s4)" by fastforce
  note j4 = ingest_edges_journal [OF 4]
  show ?thesis
  proof (cases r1)
    case (Inl e)
    with assms 1 have "srv' = s1" by (simp add: ingest_graph_def)
    with j1 Inl show ?thesis by auto
  next
    case r1: (Inr u1)
    show ?thesis
    proof (cases r2)
      case (Inl e)
      with assms 1 2 r1 have "srv' = s2" by (simp add: ingest_graph_def)
      with j1 j2 r1 Inl show ?thesis by auto
    next
      case r2: (Inr u2)
      show ?thesis
      proof (cases r3)
        case (Inl e)
        with assms 1 2 3 r1 r2 have "srv' = s3" by (simp add: ingest_graph_def)
        with j1 j2 j3 r1 r2 Inl show ?thesis by auto
      next
        case r3: (Inr n)
        from assms 1 2 3 4 r1 r2 r3 have "srv' = s4"
          by (cases r4) (auto simp: ingest_graph_def split: sum.splits)
        with j1 j2 j3 j4 r1 r2 r3 show ?thesis by auto
      qed
    qed
  qed
qed

text \<open>An ingestion that returns has sent all of them, and returns the two counts.\<close>

lemma ingest_graph_returns:
  assumes "ingest_graph c g clear srv = (Inr r, srv')"
  shows "journal srv' =
           journal srv @ (if clear then [Delete_all] else []) @ [Create_constraint]
              @ (if truthy (dict_get g ''nodes'' (JList [])) then [Merge_nodes (dict_get g ''nodes'' (JList []))] else [])
              @ (if truthy (dict_get g ''edges'' (JList [])) then [Merge_edges (dict_get g ''edges'' (JList []))] else [])
       \<and> (\<exists>n e s2 s3. ingest_nodes c (dict_get g ''nodes'' (JList [])) s2 = (Inr n, s3)
                      \<and> ingest_edges c (dict_get g ''edges'' (JList [])) s3 = (Inr e, srv')
                      \<and> r = [(''nodes'', n), (''edges'', e)])"
proof -
  let ?ns = "dict_get g ''nodes'' (JList [])"
  let ?es = "dict_get g ''edges'' (JList [])"
  obtain r1 s1 where 1: "(if clear then clear_database c srv else (Inr (), srv)) = (r1, s1)"
    by fastforce
  then have j1: "(r1 = Inr () \<and> journal s1 = journal srv @ (if clear then [Delete_all] else []))
      \<or> (\<exists>e. r1 = Inl e)"
    using clear_database_journal [of c srv r1 s1] by (cases clear) auto
  obtain r2 s2 where 2: "create_constraints c s1 = (r2, s2)" by fastforce
  note j2 = create_constraints_journal [OF 2]
  obtain r3 s3 where 3: "ingest_nodes c ?ns s2 = (r3, s3)" by fastforce
  note j3 = ingest_nodes_journal [OF 3]
  obtain r4 s4 where 4: "ingest_edges c ?es s3 = (r4, s4)" by fastforce
  note j4 = ingest_edges_journal [OF 4]
  from assms 1 obtain u1 where r1: "r1 = Inr u1"
    by (cases r1) (auto simp: ingest_graph_def)
  from assms 1 2 r1 obtain u2 where r2: "r2 = Inr u2"
    by (cases r2) (auto simp: ingest_graph_def)
  from assms 1 2 3 r1 r2 obtain n where r3: "r3 = Inr n"
    by (cases r3) (auto simp: ingest_graph_def)
  from assms 1 2 3 4 r1 r2 r3 obtain e where r4: "r4 = Inr e"
    by (cases r4) (auto simp: ingest_graph_def)
  from assms 1 2 3 4 r1 r2 r3 r4 have out: "srv' = s4" "r = [(''nodes'', n), (''edges'', e)]"
    by (auto simp: ingest_graph_def split: sum.splits)
  from j1 j2 j3 j4 r1 r2 r3 r4 out have
    "journal srv' = journal srv @ (if clear then [Delete_all] else []) @ [Create_constraint]
              @ (if truthy ?ns then [Merge_nodes ?ns] else [])
              @ (if truthy ?es then [Merge_edges ?es] else [])"
    by auto
  moreover from 3 4 r3 r4 out have
    "\<exists>n e s2 s3. ingest_nodes c ?ns s2 = (Inr n, s3) \<and> ingest_edges c ?es s3 = (Inr e, srv')
                      \<and> r = [(''nodes'', n), (''edges'', e)]"
    by blast
  ultimately show ?thesis by blast
qed

text \<open>
  When the connector is connected, the server answers every request with a record that
  has a count, and the metadata is a dictionary, the ingestion returns.
\<close>

lemma session_run_answered:
  assumes "\<forall>q d. \<exists>rep. fst (serve srv q d) = Some rep \<and> map_of rep ''count'' \<noteq> None"
  shows "\<exists>rep n s. session_run q srv = (Inr rep, s) \<and> field rep ''count'' = Inr n
           \<and> serve s = serve srv"
proof -
  from assms obtain rep where a: "fst (serve srv q (db srv)) = Some rep" and b: "map_of rep ''count'' \<noteq> None"
    by blast
  from b obtain n where "field rep ''count'' = Inr n" by (auto simp: field_def)
  with a show ?thesis by (cases "serve srv q (db srv)") (auto simp: session_run_def)
qed

lemma ingest_graph_total:
  assumes conn: "driver c \<noteq> None"
      and ans: "\<forall>q d. \<exists>rep. fst (serve srv q d) = Some rep \<and> map_of rep ''count'' \<noteq> None"
      and meta: "dict_get g ''metadata'' (JObj []) = JObj m"
  shows "\<exists>r s. ingest_graph c g clear srv = (Inr r, s)"
proof -
  let ?ns = "dict_get g ''nodes'' (JList [])"
  let ?es = "dict_get g ''edges'' (JList [])"
  have step1: "\<exists>s1. (if clear then clear_database c srv else (Inr (), srv)) = (Inr (), s1)
                  \<and> serve s1 = serve srv"
    using conn session_run_answered [OF ans, of Delete_all]
    by (cases clear) (auto simp: clear_database_def)
  then obtain s1 where 1: "(if clear then clear_database c srv else (Inr (), srv)) = (Inr (), s1)"
    and a1: "serve s1 = serve srv" by blast
  from ans a1 have ans1: "\<forall>q d. \<exists>rep. fst (serve s1 q d) = Some rep \<and> map_of rep ''count'' \<noteq> None"
    by simp
  from conn session_run_answered [OF ans1, of Create_constraint]
  obtain s2 where 2: "create_constraints c s1 = (Inr (), s2)" and a2: "serve s2 = serve s1"
    by (auto simp: create_constraints_def)
  from ans1 a2 have ans2: "\<forall>q d. \<exists>rep. fst (serve s2 q d) = Some rep \<and> map_of rep ''count'' \<noteq> None"
    by simp
  from conn session_run_answered [OF ans2, of "Merge_nodes ?ns"]
  obtain n s3 where 3: "ingest_nodes c ?ns s2 = (Inr n, s3)" and a3: "serve s3 = serve s2"
    by (cases "truthy ?ns") (auto simp: ingest_nodes_def)
  from ans2 a3 have ans3: "\<forall>q d. \<exists>rep. fst (serve s3 q d) = Some rep \<and> map_of rep ''count'' \<noteq> None"
    by simp
  from conn session_run_answered [OF ans3, of "Merge_edges ?es"]
  obtain e s4 where 4: "ingest_edges c ?es s3 = (Inr e, s4)"
    by (cases "truthy ?es") (auto simp: ingest_edges_def)
  from 1 2 3 4 meta show ?thesis by (simp add: ingest_graph_def)
qed

text \<open>
  Claim C8. For every graph document, flag and server: the requests that
  \<^verbatim>\<open>ingest_graph\<close> sends are, in this order, the deletion (only when the flag is set),
  the constraint, the node upsert and the edge upsert (each only when its list is not
  empty), or an initial part of this sequence when a step raises; so the edge upsert is
  never sent before the node upsert has returned. When \<^verbatim>\<open>ingest_graph\<close> returns, it has
  sent the whole sequence and its result is the pair of the counts that the node upsert
  and the edge upsert returned. It does return when the connector is connected, the
  server answers each request with a count and the metadata is a dictionary.
\<close>

theorem ingest_graph_order:
  assumes "ingest_graph c g clear srv = (res, srv')"
  shows "prefix (journal srv) (journal srv')
       \<and> prefix (journal srv')
           (journal srv @ (if clear then [Delete_all] else []) @ [Create_constraint]
              @ (if truthy (dict_get g ''nodes'' (JList [])) then [Merge_nodes (dict_get g ''nodes'' (JList []))] else [])
              @ (if truthy (dict_get g ''edges'' (JList [])) then [Merge_edges (dict_get g ''edges'' (JList []))] else []))
       \<and> (\<forall>r. res = Inr r \<longrightarrow>
             journal srv' =
               journal srv @ (if clear then [Delete_all] else []) @ [Create_constraint]
                 @ (if truthy (dict_get g ''nodes'' (JList [])) then [Merge_nodes (dict_get g ''nodes'' (JList []))] else [])
                 @ (if truthy (dict_get g ''edges'' (JList [])) then [Merge_edges (dict_get g ''edges'' (JList []))] else [])
             \<and> (\<exists>n e s2 s3. ingest_nodes c (dict_get g ''nodes'' (JList [])) s2 = (Inr n, s3)
                      \<and> ingest_edges c (dict_get g ''edges'' (JList [])) s3 = (Inr e, srv')
                      \<and> r = [(''nodes'', n), (''edges'', e)]))
       \<and> (driver c \<noteq> None
            \<and> (\<forall>q d. \<exists>rep. fst (serve srv q d) = Some rep \<and> map_of rep ''count'' \<noteq> None)
            \<and> (\<exists>m. dict_get g ''metadata'' (JObj []) = JObj m)
           \<longrightarrow> (\<exists>r. res = Inr r))"
proof (intro conjI allI impI)
  show "prefix (journal srv) (journal srv')"
    using ingest_graph_journal [OF assms] by blast
  show "prefix (journal srv')
           (journal srv @ (if clear then [Delete_all] else []) @ [Create_constraint]
              @ (if truthy (dict_get g ''nodes'' (JList [])) then [Merge_nodes (dict_get g ''nodes'' (JList []))] else [])
              @ (if truthy (dict_get g ''edges'' (JList [])) then [Merge_edges (dict_get g ''edges'' (JList []))] else []))"
    using ingest_graph_journal [OF assms] by blast
next
  fix r assume "res = Inr r"
  with assms have ok: "ingest_graph c g clear srv = (Inr r, srv')" by simp
  show "journal srv' =
               journal srv @ (if clear then [Delete_all] else []) @ [Create_constraint]
                 @ (if truthy (dict_get g ''nodes'' (JList [])) then [Merge_nodes (dict_get g ''nodes'' (JList []))] else [])
                 @ (if truthy (dict_get g ''edges'' (JList [])) then [Merge_edges (dict_get g ''edges'' (JList []))] else [])"
    using ingest_graph_returns [OF ok] by blast
  show "\<exists>n e s2 s3. ingest_nodes c (dict_get g ''nodes'' (JList [])) s2 = (Inr n, s3)
                      \<and> ingest_edges c (dict_get g ''edges'' (JList [])) s3 = (Inr e, srv')
                      \<and> r = [(''nodes'', n), (''edges'', e)]"
    using ingest_graph_returns [OF ok] by blast
next
  assume a: "driver c \<noteq> None
            \<and> (\<forall>q d. \<exists>rep. fst (serve srv q d) = Some rep \<and> map_of rep ''count'' \<noteq> None)
            \<and> (\<exists>m. dict_get g ''metadata'' (JObj []) = JObj m)"
  then obtain m where m: "dict_get g ''metadata'' (JObj []) = JObj m" by blast
  from a ingest_graph_total [OF _ _ m, of c srv clear] obtain r s where
    "ingest_graph c g clear srv = (Inr r, s)" by blast
  with assms have "res = Inr r" by simp
  then show "\<exists>r. res = Inr r" ..
qed

theorem ingest_graph_order_witness:
  "fst (ingest_graph
          \<lparr>uri = ''bolt://localhost:7687'', user = ''neo4j'', password = ''secret'',
           driver = Some (''bolt://localhost:7687'', ''neo4j'', ''secret'')\<rparr>
          [(''nodes'', JList [JObj [(''id'', JStr ''0'')], JObj [(''id'', JStr ''1'')]]),
           (''edges'', JList [JObj [(''source'', JStr ''0''), (''target'', JStr ''1''),
                                   (''label'', JStr ''DEPENDS_ON'')]]),
           (''metadata'', JObj [(''name'', JStr ''terraform_graph'')])]
          True (neo4j empty_graphdb))
     = Inr [(''nodes'', 2), (''edges'', 1)]
   \<and> journal (snd (ingest_graph
          \<lparr>uri = ''bolt://localhost:7687'', user = ''neo4j'', password = ''secret'',
           driver = Some (''bolt://localhost:7687'', ''neo4j'', ''secret'')\<rparr>
          [(''nodes'', JList [JObj [(''id'', JStr ''0'')], JObj [(''id'', JStr ''1'')]]),
           (''edges'', JList [JObj [(''source'', JStr ''0''), (''target'', JStr ''1''),
                                   (''label'', JStr ''DEPENDS_ON'')]]),
           (''metadata'', JObj [(''name'', JStr ''terraform_graph'')])]
          True (neo4j empty_graphdb)))
     = [Delete_all, Create_constraint,
        Merge_nodes (JList [JObj [(''id'', JStr ''0'')], JObj [(''id'', JStr ''1'')]]),
        Merge_edges (JList [JObj [(''source'', JStr ''0''), (''target'', JStr ''1''),
                                  (''label'', JStr ''DEPENDS_ON'')]])]"
proof -
  let ?c = "\<lparr>uri = ''bolt://localhost:7687'', user = ''neo4j'', password = ''secret'',
           driver = Some (''bolt://localhost:7687'', ''neo4j'', ''secret'')\<rparr>"
  let ?g = "[(''nodes'', JList [JObj [(''id'', JStr ''0'')], JObj [(''id'', JStr ''1'')]]),
           (''edges'', JList [JObj [(''source'', JStr ''0''), (''target'', JStr ''1''),
                                   (''label'', JStr ''DEPENDS_ON'')]]),
           (''metadata'', JObj [(''name'', JStr ''terraform_graph'')])]"
  let ?run = "ingest_graph ?c ?g True (neo4j empty_graphdb)"
  have res: "fst ?run = Inr [(''nodes'', 2), (''edges'', 1)]" by code_simp
  have run: "?run = (fst ?run, snd ?run)" by simp
  have "journal (neo4j empty_graphdb) = []" by (simp add: neo4j_def)
  with ingest_graph_order [OF run] res show ?thesis by (simp add: dict_get_def)
qed

section \<open>The end-to-end example\<close>

text \<open>
  Claim C4. The document
  \<^verbatim>\<open>{"objects":[{"_gvid":0,"name":"aws_instance.web"},{"_gvid":1,"name":"aws_security_group.sg"}],
  "edges":[{"tail":0,"head":1}]}\<close>
  parses to the two node records and the one edge record that the claim gives. Loading
  it into an empty store leaves two vertices and one relationship there, but the
  statistics that the program reads back are 2 nodes and 2 relationships: the query of
  \<^verbatim>\<open>get_stats\<close> pairs every resource vertex with every relationship before it counts,
  so \<^verbatim>\<open>count(r)\<close> is the number of vertices times the number of relationships.
\<close>

theorem example_document_statistics:
  "fst (parse (\<lambda>v. [])
         [''graph.json'' \<mapsto> Decoded (JObj
            [(''objects'', JList [JObj [(''_gvid'', JInt 0), (''name'', JStr ''aws_instance.web'')],
                                  JObj [(''_gvid'', JInt 1), (''name'', JStr ''aws_security_group.sg'')]]),
             (''edges'', JList [JObj [(''tail'', JInt 0), (''head'', JInt 1)]])])]
         (init_parser ''graph.json''))
     = Inr [(''nodes'', JList [JObj [(''id'', JStr ''0''), (''name'', JStr ''aws_instance.web''),
                                     (''label'', JStr ''aws_instance.web'')],
                               JObj [(''id'', JStr ''1''), (''name'', JStr ''aws_security_group.sg''),
                                     (''label'', JStr ''aws_security_group.sg'')]]),
            (''edges'', JList [JObj [(''source'', JStr ''0''), (''target'', JStr ''1''),
                                     (''label'', JStr ''DEPENDS_ON'')]]),
            (''metadata'', JObj [(''name'', JStr ''terraform_graph''), (''directed'', JBool True),
                                 (''strict'', JBool False), (''node_count'', JInt 2),
                                 (''edge_count'', JInt 1)])]
   \<and> (case main (\<lambda>v. [])
              \<lparr>graph_file = ''graph.json'', skip_generate = True, no_clear = False\<rparr>
              \<lparr>environ = [''NEO4J_PASSWORD'' \<mapsto> ''secret''],
               disk = [''graph.json'' \<mapsto> Decoded (JObj
                  [(''objects'', JList [JObj [(''_gvid'', JInt 0), (''name'', JStr ''aws_instance.web'')],
                                        JObj [(''_gvid'', JInt 1), (''name'', JStr ''aws_security_group.sg'')]]),
                   (''edges'', JList [JObj [(''tail'', JInt 0), (''head'', JInt 1)]])])],
               generate_terraform_graph = (\<lambda>f fs. (False, fs)),
               store = neo4j empty_graphdb\<rparr>
       of (status, reports, w) \<Rightarrow>
            (status, reports, length (g_vertices (db (store w))), length (g_relationships (db (store w)))))
     = (0, [Statistics 2 2], 2, 1)"
  by code_simp

end
